theory Spec2Isabelle
  imports Complex_Main
begin

section \<open>JavaScript numbers\<close>

text \<open>
  The metrics engine (\<^verbatim>\<open>utils/calculations.ts\<close>) is straight-line arithmetic on
  JavaScript numbers. A number is modelled by its IEEE 754 class: a finite value, negative
  zero, one of the two infinities, or NaN. \<open>Fin 0\<close> is positive zero and \<open>Fin x\<close> with
  \<open>x \<noteq> 0\<close> is the finite non-zero number \<open>x\<close>.

  Finite results are exact reals: the rounding of binary64, overflow to an infinity and
  underflow to a zero are not modelled. Everything else follows ECMAScript: the special
  values, the sign of zeros and infinities, division by zero, the comparison with NaN,
  the truthiness of a number and the case table of \<^verbatim>\<open>Math.pow\<close>.
\<close>

datatype number = Fin real | NegZero | PosInf | NegInf | NaN

fun is_nan :: "number \<Rightarrow> bool" where
  "is_nan NaN = True"
| "is_nan _ = False"

fun is_inf :: "number \<Rightarrow> bool" where
  "is_inf PosInf = True"
| "is_inf NegInf = True"
| "is_inf _ = False"

fun is_zero :: "number \<Rightarrow> bool" where
  "is_zero (Fin x) = (x = 0)"
| "is_zero NegZero = True"
| "is_zero _ = False"

fun is_finite :: "number \<Rightarrow> bool" where
  "is_finite (Fin x) = True"
| "is_finite NegZero = True"
| "is_finite _ = False"

text \<open>The sign bit; it is never consulted for NaN.\<close>

fun sign_bit :: "number \<Rightarrow> bool" where
  "sign_bit (Fin x) = (x < 0)"
| "sign_bit NegZero = True"
| "sign_bit PosInf = False"
| "sign_bit NegInf = True"
| "sign_bit NaN = False"

text \<open>The mathematical value of a finite number (both zeros are 0).\<close>

fun to_real :: "number \<Rightarrow> real" where
  "to_real (Fin x) = x"
| "to_real _ = 0"

definition zero_s :: "bool \<Rightarrow> number" where
  "zero_s s = (if s then NegZero else Fin 0)"

definition inf_s :: "bool \<Rightarrow> number" where
  "inf_s s = (if s then NegInf else PosInf)"

text \<open>A finite result \<open>x\<close>; the sign \<open>s\<close> is used only when \<open>x\<close> is zero.\<close>

definition fin_s :: "bool \<Rightarrow> real \<Rightarrow> number" where
  "fin_s s x = (if x = 0 then zero_s s else Fin x)"

text \<open>\<^verbatim>\<open>a * b\<close>\<close>

definition js_mul :: "number \<Rightarrow> number \<Rightarrow> number" where
  "js_mul a b =
     (if is_nan a \<or> is_nan b then NaN
      else if is_inf a \<or> is_inf b then
        (if is_zero a \<or> is_zero b then NaN else inf_s (sign_bit a \<noteq> sign_bit b))
      else fin_s (sign_bit a \<noteq> sign_bit b) (to_real a * to_real b))"

text \<open>\<^verbatim>\<open>a / b\<close>\<close>

definition js_div :: "number \<Rightarrow> number \<Rightarrow> number" where
  "js_div a b =
     (if is_nan a \<or> is_nan b then NaN
      else if is_inf a then
        (if is_inf b then NaN else inf_s (sign_bit a \<noteq> sign_bit b))
      else if is_inf b then zero_s (sign_bit a \<noteq> sign_bit b)
      else if is_zero b then
        (if is_zero a then NaN else inf_s (sign_bit a \<noteq> sign_bit b))
      else fin_s (sign_bit a \<noteq> sign_bit b) (to_real a / to_real b))"

text \<open>\<^verbatim>\<open>a + b\<close>: a zero sum is negative only when both operands are negative zero.\<close>

definition js_add :: "number \<Rightarrow> number \<Rightarrow> number" where
  "js_add a b =
     (if is_nan a \<or> is_nan b then NaN
      else if is_inf a then (if is_inf b \<and> a \<noteq> b then NaN else a)
      else if is_inf b then b
      else fin_s (a = NegZero \<and> b = NegZero) (to_real a + to_real b))"

fun js_neg :: "number \<Rightarrow> number" where
  "js_neg (Fin x) = (if x = 0 then NegZero else Fin (- x))"
| "js_neg NegZero = Fin 0"
| "js_neg PosInf = NegInf"
| "js_neg NegInf = PosInf"
| "js_neg NaN = NaN"

text \<open>\<^verbatim>\<open>a - b\<close> is \<^verbatim>\<open>a + (-b)\<close>.\<close>

definition js_sub :: "number \<Rightarrow> number \<Rightarrow> number" where
  "js_sub a b = js_add a (js_neg b)"

text \<open>\<^verbatim>\<open>a < b\<close> and \<^verbatim>\<open>a > b\<close>: false as soon as an operand is NaN.\<close>

definition js_lt :: "number \<Rightarrow> number \<Rightarrow> bool" where
  "js_lt a b =
     (if is_nan a \<or> is_nan b then False
      else if a = PosInf then False
      else if b = NegInf then False
      else if a = NegInf then True
      else if b = PosInf then True
      else to_real a < to_real b)"

definition js_gt :: "number \<Rightarrow> number \<Rightarrow> bool" where
  "js_gt a b = js_lt b a"

text \<open>\<^verbatim>\<open>a >= b\<close>, \<^verbatim>\<open>a <= b\<close> and \<^verbatim>\<open>a == b\<close>, used to state properties of the results.\<close>

definition js_ge :: "number \<Rightarrow> number \<Rightarrow> bool" where
  "js_ge a b = (\<not> is_nan a \<and> \<not> is_nan b \<and> \<not> js_lt a b)"

definition js_le :: "number \<Rightarrow> number \<Rightarrow> bool" where
  "js_le a b = (\<not> is_nan a \<and> \<not> is_nan b \<and> \<not> js_lt b a)"


text \<open>A number is falsy when it is NaN or a zero.\<close>

definition truthy :: "number \<Rightarrow> bool" where
  "truthy a = (\<not> is_nan a \<and> \<not> is_zero a)"

text \<open>
  \<^verbatim>\<open>v || 0\<close> for a property that may be missing from the object at run time:
  \<open>None\<close> is \<^verbatim>\<open>undefined\<close>, which is falsy.
\<close>

definition or_zero :: "number option \<Rightarrow> number" where
  "or_zero v = (case v of None \<Rightarrow> Fin 0 | Some a \<Rightarrow> if truthy a then a else Fin 0)"

definition is_odd_integer :: "real \<Rightarrow> bool" where
  "is_odd_integer x = (x = of_int \<lfloor>x\<rfloor> \<and> odd \<lfloor>x\<rfloor>)"

text \<open>\<^verbatim>\<open>Math.pow(base, exponent)\<close>, in the order of the cases of ECMAScript.\<close>

definition Math_pow :: "number \<Rightarrow> number \<Rightarrow> number" where
  "Math_pow base exponent =
     (if is_nan exponent then NaN
      else if is_zero exponent then Fin 1
      else if is_nan base then NaN
      else if base = PosInf then (if js_gt exponent (Fin 0) then PosInf else Fin 0)
      else if base = NegInf then
        (if js_gt exponent (Fin 0)
         then (if is_odd_integer (to_real exponent) \<and> is_finite exponent then NegInf else PosInf)
         else (if is_odd_integer (to_real exponent) \<and> is_finite exponent then NegZero else Fin 0))
      else if base = Fin 0 then (if js_gt exponent (Fin 0) then Fin 0 else PosInf)
      else if base = NegZero then
        (if js_gt exponent (Fin 0)
         then (if is_odd_integer (to_real exponent) \<and> is_finite exponent then NegZero else Fin 0)
         else (if is_odd_integer (to_real exponent) \<and> is_finite exponent then NegInf else PosInf))
      else if exponent = PosInf then
        (if \<bar>to_real base\<bar> > 1 then PosInf else if \<bar>to_real base\<bar> = 1 then NaN else Fin 0)
      else if exponent = NegInf then
        (if \<bar>to_real base\<bar> > 1 then Fin 0 else if \<bar>to_real base\<bar> = 1 then NaN else PosInf)
      else if to_real base < 0 \<and> to_real exponent \<noteq> of_int \<lfloor>to_real exponent\<rfloor> then NaN
      else if to_real base < 0 \<and> is_odd_integer (to_real exponent)
        then Fin (- (\<bar>to_real base\<bar> powr to_real exponent))
      else Fin (\<bar>to_real base\<bar> powr to_real exponent))"

section \<open>Data model (\<^verbatim>\<open>types.ts\<close>)\<close>

text \<open>
  \<^verbatim>\<open>Property\<close> and \<^verbatim>\<open>CalculationResult\<close>. The field \<^verbatim>\<open>id\<close> is named \<open>id_field\<close>.
  \<^verbatim>\<open>hotTubMaintenance\<close> is declared a required number, but the engine reads it with
  \<^verbatim>\<open>|| 0\<close>, so a record that lacks it is an input the engine handles: \<open>None\<close> stands for
  the missing property.
\<close>

record Property =
  id_field :: string
  address :: string
  price :: number
  images :: "string list"
  bedrooms :: number
  bathrooms :: number
  sqft :: number
  downPaymentPercent :: number
  interestRate :: number
  loanTermYears :: number
  nightlyRate :: number
  occupancyRate :: number
  propertyTax :: number
  insurance :: number
  managementFeePercent :: number
  snowRemoval :: number
  hotTubMaintenance :: "number option"
  utilities :: number
  maintenance :: number
  hoa :: number
  otherExpenses :: number
  aiDescription :: "string option"
  fairOfferRecommendation :: "string option"
  isFavorite :: "bool option"

record CalculationResult =
  monthlyMortgage :: number
  monthlyIncome :: number
  monthlyExpenses :: number
  cashFlow :: number
  cashOnCashReturn :: number
  capRate :: number
  totalInvestment :: number

section \<open>The metrics engine: \<^verbatim>\<open>calculateMetrics\<close>\<close>

text \<open>
  Each \<^verbatim>\<open>const\<close> of the function body is a definition over the input \<open>p\<close>, in the
  order of the source. A local whose name is also a field of the result carries the
  suffix \<open>_of\<close>.
\<close>

subsection \<open>1. Mortgage calculation\<close>

definition downPayment :: "Property \<Rightarrow> number" where
  "downPayment p = js_mul (price p) (js_div (downPaymentPercent p) (Fin 100))"

definition loanAmount :: "Property \<Rightarrow> number" where
  "loanAmount p = js_sub (price p) (downPayment p)"

definition monthlyRate :: "Property \<Rightarrow> number" where
  "monthlyRate p = js_div (js_div (interestRate p) (Fin 100)) (Fin 12)"

definition numberOfPayments :: "Property \<Rightarrow> number" where
  "numberOfPayments p = js_mul (loanTermYears p) (Fin 12)"

definition monthlyMortgage_of :: "Property \<Rightarrow> number" where
  "monthlyMortgage_of p =
     (if js_gt (monthlyRate p) (Fin 0) then
        js_div
          (js_mul (js_mul (loanAmount p) (monthlyRate p))
             (Math_pow (js_add (Fin 1) (monthlyRate p)) (numberOfPayments p)))
          (js_sub (Math_pow (js_add (Fin 1) (monthlyRate p)) (numberOfPayments p)) (Fin 1))
      else js_div (loanAmount p) (numberOfPayments p))"

subsection \<open>2. Income calculation\<close>

definition monthlyIncome_of :: "Property \<Rightarrow> number" where
  "monthlyIncome_of p =
     js_div (js_mul (js_mul (nightlyRate p) (Fin 365)) (js_div (occupancyRate p) (Fin 100)))
       (Fin 12)"

subsection \<open>3. Expense calculation\<close>

definition managementFee :: "Property \<Rightarrow> number" where
  "managementFee p = js_mul (monthlyIncome_of p) (js_div (managementFeePercent p) (Fin 100))"

definition monthlyTax :: "Property \<Rightarrow> number" where
  "monthlyTax p = js_div (propertyTax p) (Fin 12)"

definition monthlyInsurance :: "Property \<Rightarrow> number" where
  "monthlyInsurance p = js_div (insurance p) (Fin 12)"

definition monthlyExpenses_of :: "Property \<Rightarrow> number" where
  "monthlyExpenses_of p =
     js_add (js_add (js_add (js_add (js_add (js_add (js_add (js_add
       (managementFee p)
       (monthlyTax p))
       (monthlyInsurance p))
       (snowRemoval p))
       (or_zero (hotTubMaintenance p)))
       (utilities p))
       (maintenance p))
       (hoa p))
       (otherExpenses p)"

subsection \<open>4. Profitability\<close>

definition cashFlow_of :: "Property \<Rightarrow> number" where
  "cashFlow_of p = js_sub (js_sub (monthlyIncome_of p) (monthlyExpenses_of p)) (monthlyMortgage_of p)"

definition annualCashFlow :: "Property \<Rightarrow> number" where
  "annualCashFlow p = js_mul (cashFlow_of p) (Fin 12)"

definition closingCosts :: "Property \<Rightarrow> number" where
  "closingCosts p = js_mul (price p) (Fin (3 / 100))"

definition totalInvestment_of :: "Property \<Rightarrow> number" where
  "totalInvestment_of p = js_add (downPayment p) (closingCosts p)"

definition cashOnCashReturn_of :: "Property \<Rightarrow> number" where
  "cashOnCashReturn_of p =
     (if js_gt (totalInvestment_of p) (Fin 0)
      then js_mul (js_div (annualCashFlow p) (totalInvestment_of p)) (Fin 100)
      else Fin 0)"

definition annualNOI :: "Property \<Rightarrow> number" where
  "annualNOI p = js_mul (js_sub (monthlyIncome_of p) (monthlyExpenses_of p)) (Fin 12)"

definition capRate_of :: "Property \<Rightarrow> number" where
  "capRate_of p = js_mul (js_div (annualNOI p) (price p)) (Fin 100)"

definition calculateMetrics :: "Property \<Rightarrow> CalculationResult" where
  "calculateMetrics p =
     \<lparr> monthlyMortgage = monthlyMortgage_of p,
       monthlyIncome = monthlyIncome_of p,
       monthlyExpenses = monthlyExpenses_of p,
       cashFlow = cashFlow_of p,
       cashOnCashReturn = cashOnCashReturn_of p,
       capRate = capRate_of p,
       totalInvestment = totalInvestment_of p \<rparr>"

section \<open>Run-time values and failing operations\<close>

text \<open>
  The engine is compiled to JavaScript, where an operator can throw. To state that
  \<^verbatim>\<open>calculateMetrics\<close> never does, the function is also written over run-time values,
  with every operation returning either an error or a value.

  A value is a number, a BigInt, \<^verbatim>\<open>undefined\<close> (what reading a missing property gives) or a
  symbol; strings, booleans, \<^verbatim>\<open>null\<close> and objects are left out. \<^verbatim>\<open>ToNumeric\<close> throws a
  TypeError on a symbol, an arithmetic operator throws a TypeError when it mixes a BigInt with
  a number, a BigInt division by \<^verbatim>\<open>0n\<close> throws a RangeError, and \<^verbatim>\<open>Math.pow\<close> applies
  \<^verbatim>\<open>ToNumber\<close>, which throws a TypeError on a BigInt and on a symbol.
\<close>

datatype error = TypeError | RangeError

datatype jsvalue = JNumber number | JBigInt int | JUndefined | JSymbol

datatype numeric = Num number | Big int

fun and_then :: "error + 'a \<Rightarrow> ('a \<Rightarrow> error + 'b) \<Rightarrow> error + 'b" where
  "and_then (Inl e) f = Inl e"
| "and_then (Inr x) f = f x"

fun ToNumeric :: "jsvalue \<Rightarrow> error + numeric" where
  "ToNumeric (JNumber n) = Inr (Num n)"
| "ToNumeric (JBigInt i) = Inr (Big i)"
| "ToNumeric JUndefined = Inr (Num NaN)"
| "ToNumeric JSymbol = Inl TypeError"

fun ToNumber :: "jsvalue \<Rightarrow> error + number" where
  "ToNumber (JNumber n) = Inr n"
| "ToNumber (JBigInt i) = Inl TypeError"
| "ToNumber JUndefined = Inr NaN"
| "ToNumber JSymbol = Inl TypeError"

fun ToBoolean :: "jsvalue \<Rightarrow> bool" where
  "ToBoolean (JNumber n) = truthy n"
| "ToBoolean (JBigInt i) = (i \<noteq> 0)"
| "ToBoolean JUndefined = False"
| "ToBoolean JSymbol = True"

text \<open>
  An arithmetic operator converts the left operand, then the right one, and applies the
  number operation or the BigInt operation when both are of the same kind.
\<close>

fun apply_numeric ::
  "(number \<Rightarrow> number \<Rightarrow> number) \<Rightarrow> (int \<Rightarrow> int \<Rightarrow> error + int) \<Rightarrow> numeric \<Rightarrow> numeric
     \<Rightarrow> error + jsvalue" where
  "apply_numeric fn fb (Num m) (Num n) = Inr (JNumber (fn m n))"
| "apply_numeric fn fb (Big i) (Big j) = and_then (fb i j) (\<lambda>k. Inr (JBigInt k))"
| "apply_numeric fn fb (Num m) (Big j) = Inl TypeError"
| "apply_numeric fn fb (Big i) (Num n) = Inl TypeError"

definition binary_op ::
  "(number \<Rightarrow> number \<Rightarrow> number) \<Rightarrow> (int \<Rightarrow> int \<Rightarrow> error + int) \<Rightarrow> jsvalue \<Rightarrow> jsvalue
     \<Rightarrow> error + jsvalue" where
  "binary_op fn fb a b =
     and_then (ToNumeric a) (\<lambda>x. and_then (ToNumeric b) (\<lambda>y. apply_numeric fn fb x y))"

definition rt_mul :: "jsvalue \<Rightarrow> jsvalue \<Rightarrow> error + jsvalue" where
  "rt_mul = binary_op js_mul (\<lambda>i j. Inr (i * j))"

text \<open>A BigInt quotient is truncated towards zero.\<close>

definition rt_div :: "jsvalue \<Rightarrow> jsvalue \<Rightarrow> error + jsvalue" where
  "rt_div = binary_op js_div
     (\<lambda>i j. if j = 0 then Inl RangeError else Inr (sgn i * sgn j * (\<bar>i\<bar> div \<bar>j\<bar>)))"

definition rt_sub :: "jsvalue \<Rightarrow> jsvalue \<Rightarrow> error + jsvalue" where
  "rt_sub = binary_op js_sub (\<lambda>i j. Inr (i - j))"

text \<open>\<^verbatim>\<open>a + b\<close>; with no string among the values it is always the numeric addition.\<close>

definition rt_add :: "jsvalue \<Rightarrow> jsvalue \<Rightarrow> error + jsvalue" where
  "rt_add = binary_op js_add (\<lambda>i j. Inr (i + j))"

text \<open>
  \<^verbatim>\<open>a > b\<close> is \<^verbatim>\<open>b < a\<close>; a BigInt is compared with a number by its mathematical value.
\<close>

fun numeric_lt :: "numeric \<Rightarrow> numeric \<Rightarrow> bool" where
  "numeric_lt (Num m) (Num n) = js_lt m n"
| "numeric_lt (Big i) (Big j) = (i < j)"
| "numeric_lt (Big i) (Num n) = js_lt (Fin (of_int i)) n"
| "numeric_lt (Num m) (Big j) = js_lt m (Fin (of_int j))"

definition rt_gt :: "jsvalue \<Rightarrow> jsvalue \<Rightarrow> error + bool" where
  "rt_gt a b = and_then (ToNumeric b) (\<lambda>x. and_then (ToNumeric a) (\<lambda>y. Inr (numeric_lt x y)))"

definition rt_pow :: "jsvalue \<Rightarrow> jsvalue \<Rightarrow> error + jsvalue" where
  "rt_pow a b = and_then (ToNumber a) (\<lambda>x. and_then (ToNumber b) (\<lambda>y. Inr (JNumber (Math_pow x y))))"

text \<open>\<^verbatim>\<open>a || b\<close> for a right operand that is already a value.\<close>

definition rt_or :: "jsvalue \<Rightarrow> jsvalue \<Rightarrow> jsvalue" where
  "rt_or a b = (if ToBoolean a then a else b)"

text \<open>
  An object maps property names to values; a name it does not have reads as
  \<^verbatim>\<open>undefined\<close>.
\<close>

type_synonym object = "string \<Rightarrow> jsvalue"

definition object_of :: "(string \<times> jsvalue) list \<Rightarrow> object" where
  "object_of kvs k = (case map_of kvs k of None \<Rightarrow> JUndefined | Some v \<Rightarrow> v)"

text \<open>
  \<^verbatim>\<open>calculateMetrics\<close> over run-time values: the statements of the source in their order,
  each operation able to fail, in the four parts the source marks (mortgage, income,
  expenses, profitability). The locals carry a prime.
\<close>

definition mortgage_rt :: "object \<Rightarrow> error + jsvalue \<times> jsvalue" where
  "mortgage_rt p =
     and_then (rt_div (p ''downPaymentPercent'') (JNumber (Fin 100))) (\<lambda>dpFraction.
     and_then (rt_mul (p ''price'') dpFraction) (\<lambda>downPayment'.
     and_then (rt_sub (p ''price'') downPayment') (\<lambda>loanAmount'.
     and_then (rt_div (p ''interestRate'') (JNumber (Fin 100))) (\<lambda>yearlyRate.
     and_then (rt_div yearlyRate (JNumber (Fin 12))) (\<lambda>monthlyRate'.
     and_then (rt_mul (p ''loanTermYears'') (JNumber (Fin 12))) (\<lambda>numberOfPayments'.
     and_then (rt_gt monthlyRate' (JNumber (Fin 0))) (\<lambda>positiveRate.
     and_then
       (if positiveRate then
          and_then (rt_mul loanAmount' monthlyRate') (\<lambda>interest.
          and_then (rt_add (JNumber (Fin 1)) monthlyRate') (\<lambda>base1.
          and_then (rt_pow base1 numberOfPayments') (\<lambda>growth1.
          and_then (rt_mul interest growth1) (\<lambda>numerator.
          and_then (rt_add (JNumber (Fin 1)) monthlyRate') (\<lambda>base2.
          and_then (rt_pow base2 numberOfPayments') (\<lambda>growth2.
          and_then (rt_sub growth2 (JNumber (Fin 1))) (\<lambda>denominator.
          rt_div numerator denominator)))))))
        else rt_div loanAmount' numberOfPayments')
       (\<lambda>monthlyMortgage'. Inr (downPayment', monthlyMortgage'))
     )))))))"

definition income_rt :: "object \<Rightarrow> error + jsvalue" where
  "income_rt p =
     and_then (rt_mul (p ''nightlyRate'') (JNumber (Fin 365))) (\<lambda>yearlyNights.
     and_then (rt_div (p ''occupancyRate'') (JNumber (Fin 100))) (\<lambda>occupancy.
     and_then (rt_mul yearlyNights occupancy) (\<lambda>yearlyIncome.
     rt_div yearlyIncome (JNumber (Fin 12)))))"

definition expenses_rt :: "object \<Rightarrow> jsvalue \<Rightarrow> error + jsvalue" where
  "expenses_rt p monthlyIncome' =
     and_then (rt_div (p ''managementFeePercent'') (JNumber (Fin 100))) (\<lambda>feeFraction.
     and_then (rt_mul monthlyIncome' feeFraction) (\<lambda>managementFee'.
     and_then (rt_div (p ''propertyTax'') (JNumber (Fin 12))) (\<lambda>monthlyTax'.
     and_then (rt_div (p ''insurance'') (JNumber (Fin 12))) (\<lambda>monthlyInsurance'.
     and_then (rt_add managementFee' monthlyTax') (\<lambda>s1.
     and_then (rt_add s1 monthlyInsurance') (\<lambda>s2.
     and_then (rt_add s2 (p ''snowRemoval'')) (\<lambda>s3.
     and_then (rt_add s3 (rt_or (p ''hotTubMaintenance'') (JNumber (Fin 0)))) (\<lambda>s4.
     and_then (rt_add s4 (p ''utilities'')) (\<lambda>s5.
     and_then (rt_add s5 (p ''maintenance'')) (\<lambda>s6.
     and_then (rt_add s6 (p ''hoa'')) (\<lambda>s7.
     rt_add s7 (p ''otherExpenses''))))))))))))"

definition profitability_rt ::
  "object \<Rightarrow> jsvalue \<Rightarrow> jsvalue \<Rightarrow> jsvalue \<Rightarrow> jsvalue \<Rightarrow> error + object" where
  "profitability_rt p downPayment' monthlyMortgage' monthlyIncome' monthlyExpenses' =
     and_then (rt_sub monthlyIncome' monthlyExpenses') (\<lambda>operatingIncome.
     and_then (rt_sub operatingIncome monthlyMortgage') (\<lambda>cashFlow'.
     and_then (rt_mul cashFlow' (JNumber (Fin 12))) (\<lambda>annualCashFlow'.
     and_then (rt_mul (p ''price'') (JNumber (Fin (3 / 100)))) (\<lambda>closingCosts'.
     and_then (rt_add downPayment' closingCosts') (\<lambda>totalInvestment'.
     and_then (rt_gt totalInvestment' (JNumber (Fin 0))) (\<lambda>invested.
     and_then
       (if invested then
          and_then (rt_div annualCashFlow' totalInvestment') (\<lambda>ratio.
          rt_mul ratio (JNumber (Fin 100)))
        else Inr (JNumber (Fin 0)))
       (\<lambda>cashOnCashReturn'.
     and_then (rt_sub monthlyIncome' monthlyExpenses') (\<lambda>operatingIncome2.
     and_then (rt_mul operatingIncome2 (JNumber (Fin 12))) (\<lambda>annualNOI'.
     and_then (rt_div annualNOI' (p ''price'')) (\<lambda>yield.
     and_then (rt_mul yield (JNumber (Fin 100))) (\<lambda>capRate'.
     Inr (object_of
       [(''monthlyMortgage'', monthlyMortgage'),
        (''monthlyIncome'', monthlyIncome'),
        (''monthlyExpenses'', monthlyExpenses'),
        (''cashFlow'', cashFlow'),
        (''cashOnCashReturn'', cashOnCashReturn'),
        (''capRate'', capRate'),
        (''totalInvestment'', totalInvestment')])
     )))))))))))"

definition calculateMetrics_rt :: "object \<Rightarrow> error + object" where
  "calculateMetrics_rt p =
     and_then (mortgage_rt p) (\<lambda>(downPayment', monthlyMortgage').
     and_then (income_rt p) (\<lambda>monthlyIncome'.
     and_then (expenses_rt p monthlyIncome') (\<lambda>monthlyExpenses'.
     profitability_rt p downPayment' monthlyMortgage' monthlyIncome' monthlyExpenses')))"

text \<open>
  A typed \<^verbatim>\<open>Property\<close> and a typed \<^verbatim>\<open>CalculationResult\<close> as objects: the numeric fields
  hold numbers, and a missing \<^verbatim>\<open>hotTubMaintenance\<close> reads as \<^verbatim>\<open>undefined\<close>. The string
  fields, which the engine does not read, are left out.
\<close>

definition Property_object :: "Property \<Rightarrow> object" where
  "Property_object p = object_of
     [(''price'', JNumber (price p)),
      (''bedrooms'', JNumber (bedrooms p)),
      (''bathrooms'', JNumber (bathrooms p)),
      (''sqft'', JNumber (sqft p)),
      (''downPaymentPercent'', JNumber (downPaymentPercent p)),
      (''interestRate'', JNumber (interestRate p)),
      (''loanTermYears'', JNumber (loanTermYears p)),
      (''nightlyRate'', JNumber (nightlyRate p)),
      (''occupancyRate'', JNumber (occupancyRate p)),
      (''propertyTax'', JNumber (propertyTax p)),
      (''insurance'', JNumber (insurance p)),
      (''managementFeePercent'', JNumber (managementFeePercent p)),
      (''snowRemoval'', JNumber (snowRemoval p)),
      (''hotTubMaintenance'',
         (case hotTubMaintenance p of None \<Rightarrow> JUndefined | Some n \<Rightarrow> JNumber n)),
      (''utilities'', JNumber (utilities p)),
      (''maintenance'', JNumber (maintenance p)),
      (''hoa'', JNumber (hoa p)),
      (''otherExpenses'', JNumber (otherExpenses p))]"

definition CalculationResult_object :: "CalculationResult \<Rightarrow> object" where
  "CalculationResult_object r = object_of
     [(''monthlyMortgage'', JNumber (monthlyMortgage r)),
      (''monthlyIncome'', JNumber (monthlyIncome r)),
      (''monthlyExpenses'', JNumber (monthlyExpenses r)),
      (''cashFlow'', JNumber (cashFlow r)),
      (''cashOnCashReturn'', JNumber (cashOnCashReturn r)),
      (''capRate'', JNumber (capRate r)),
      (''totalInvestment'', JNumber (totalInvestment r))]"

section \<open>Sample inputs\<close>

text \<open>
  The record that \<^verbatim>\<open>AddPropertyModal\<close> builds when the fetched listing data has no
  field of its own: every \<^verbatim>\<open>data.x || default\<close> takes its default. The identifier and the
  address, which come from the clock and from the user's query, are placeholders; the engine
  reads neither.
\<close>

definition newProperty :: Property where
  "newProperty =
     \<lparr> id_field = ''0'', address = '''', price = Fin 450000, images = [],
       bedrooms = Fin 3, bathrooms = Fin 2, sqft = Fin 1500,
       downPaymentPercent = Fin 20, interestRate = Fin (68 / 10), loanTermYears = Fin 30,
       nightlyRate = Fin 200, occupancyRate = Fin 60,
       propertyTax = Fin 5000, insurance = Fin 1500, managementFeePercent = Fin 25,
       snowRemoval = Fin 0, hotTubMaintenance = Some (Fin 0), utilities = Fin 300,
       maintenance = Fin 250, hoa = Fin 0, otherExpenses = Fin 0,
       aiDescription = None, fairOfferRecommendation = None, isFavorite = None \<rparr>"

section \<open>Arithmetic on finite numbers\<close>

text \<open>
  In this model the operators agree with real arithmetic on finite operands; division needs
  a non-zero divisor, and binary64 would round each result. The properties of
  \<^verbatim>\<open>calculateMetrics\<close> further down assert no exact value of a rounded result: they are
  stated on the operators themselves, on branches, guards and special values, on results
  that need no rounding, and on signs, bounds and inequalities that rounding to nearest
  keeps.
\<close>

lemma is_finite_fin_s [simp]: "is_finite (fin_s s x)"
  by (simp add: fin_s_def zero_s_def)

lemma to_real_fin_s [simp]: "to_real (fin_s s x) = x"
  by (simp add: fin_s_def zero_s_def)

lemma finite_not_special: "is_finite a \<Longrightarrow> \<not> is_nan a \<and> \<not> is_inf a"
  by (cases a) auto

lemma is_zero_finite: "is_finite a \<Longrightarrow> is_zero a = (to_real a = 0)"
  by (cases a) auto

lemma js_mul_finite:
  "is_finite a \<Longrightarrow> is_finite b \<Longrightarrow> is_finite (js_mul a b) \<and> to_real (js_mul a b) = to_real a * to_real b"
  by (simp add: js_mul_def finite_not_special)

lemma js_add_finite:
  "is_finite a \<Longrightarrow> is_finite b \<Longrightarrow> is_finite (js_add a b) \<and> to_real (js_add a b) = to_real a + to_real b"
  by (simp add: js_add_def finite_not_special)

lemma js_neg_finite:
  "is_finite a \<Longrightarrow> is_finite (js_neg a) \<and> to_real (js_neg a) = - to_real a"
  by (cases a) auto

lemma js_sub_finite:
  "is_finite a \<Longrightarrow> is_finite b \<Longrightarrow> is_finite (js_sub a b) \<and> to_real (js_sub a b) = to_real a - to_real b"
  by (simp add: js_sub_def js_add_finite js_neg_finite)

lemma js_div_finite:
  "is_finite a \<Longrightarrow> is_finite b \<Longrightarrow> to_real b \<noteq> 0 \<Longrightarrow>
     is_finite (js_div a b) \<and> to_real (js_div a b) = to_real a / to_real b"
  by (simp add: js_div_def is_zero_finite finite_not_special)

lemma js_mul_Fin: "js_mul (Fin a) (Fin b) = fin_s ((a < 0) \<noteq> (b < 0)) (a * b)"
  by (simp add: js_mul_def)

lemma js_div_Fin:
  "js_div (Fin a) (Fin b) =
     (if b = 0 then (if a = 0 then NaN else inf_s (a < 0)) else fin_s ((a < 0) \<noteq> (b < 0)) (a / b))"
  by (simp add: js_div_def)

lemma js_add_Fin: "js_add (Fin a) (Fin b) = Fin (a + b)"
  by (simp add: js_add_def fin_s_def zero_s_def)

lemma js_sub_Fin: "js_sub (Fin a) (Fin b) = Fin (a - b)"
  by (simp add: js_sub_def js_add_def fin_s_def zero_s_def)

lemma js_gt_Fin: "js_gt (Fin a) (Fin b) = (b < a)"
  by (simp add: js_gt_def js_lt_def)

lemma Math_pow_Fin:
  "0 < a \<Longrightarrow> Math_pow (Fin a) (Fin b) = Fin (a powr b)"
  by (simp add: Math_pow_def)

lemma or_zero_Some_Fin: "or_zero (Some (Fin a)) = Fin a"
  by (simp add: or_zero_def truthy_def)

lemmas js_eval = js_mul_Fin js_div_Fin js_add_Fin js_sub_Fin js_gt_Fin Math_pow_Fin or_zero_Some_Fin
  fin_s_def zero_s_def inf_s_def

lemma js_ge_zero_finite: "is_finite a \<Longrightarrow> js_ge a (Fin 0) = (0 \<le> to_real a)"
  by (cases a) (auto simp: js_ge_def js_lt_def)

lemma js_ge_le_finite:
  "js_ge a (Fin l) \<Longrightarrow> js_le a (Fin u) \<Longrightarrow>
     is_finite a \<and> l \<le> to_real a \<and> to_real a \<le> u"
  by (cases a) (auto simp: js_ge_def js_le_def js_lt_def split: if_splits)

section \<open>The two branches of the mortgage payment\<close>

text \<open>
  A rate that is not greater than 0 (zero, negative or NaN) stays so when divided by 100 and
  by 12, and the straight-line branch is taken.
\<close>

lemma rate_not_positive:
  "\<not> js_gt (interestRate p) (Fin 0) \<Longrightarrow> \<not> js_gt (monthlyRate p) (Fin 0)"
  by (cases "interestRate p")
     (simp_all add: monthlyRate_def js_div_def js_gt_def js_lt_def fin_s_def zero_s_def inf_s_def)

lemma straight_line_branch:
  "\<not> js_gt (interestRate p) (Fin 0) \<Longrightarrow>
     monthlyMortgage (calculateMetrics p) = js_div (loanAmount p) (js_mul (loanTermYears p) (Fin 12))"
  by (simp add: calculateMetrics_def monthlyMortgage_of_def rate_not_positive numberOfPayments_def)

lemma loanAmount_infinite_price: "loanAmount (newProperty\<lparr>price := PosInf\<rparr>) = NaN"
  by (simp add: newProperty_def loanAmount_def downPayment_def js_div_Fin js_mul_def js_sub_def
      js_add_def fin_s_def zero_s_def inf_s_def)

section \<open>Special values\<close>

text \<open>
  NaN is absorbing and a division by a zero is never finite. When \<open>e\<close> or \<open>m\<close> is not
  finite, \<open>((a - e) - m) + m + e\<close> is NaN: an infinity meets its opposite on the way.
\<close>

lemma js_add_NaN [simp]: "js_add NaN b = NaN" "js_add a NaN = NaN"
  by (simp_all add: js_add_def)

lemma js_mul_NaN [simp]: "js_mul NaN b = NaN" "js_mul a NaN = NaN"
  by (simp_all add: js_mul_def)

lemma js_div_NaN [simp]: "js_div NaN b = NaN" "js_div a NaN = NaN"
  by (simp_all add: js_div_def)

lemma not_positive: "is_zero a \<or> js_lt a (Fin 0) \<Longrightarrow> \<not> js_gt a (Fin 0)"
  by (cases a) (auto simp: js_gt_def js_lt_def)

lemma zero_price_investment:
  "is_zero P \<Longrightarrow> is_zero d \<Longrightarrow>
     is_zero (js_add (js_mul P (js_div d (Fin 100))) (js_mul P (Fin (3 / 100))))"
  by (cases P; cases d) (simp_all add: js_add_def js_mul_def js_div_def fin_s_def zero_s_def)

lemma zero_divisor_not_finite: "is_zero b \<Longrightarrow> \<not> is_finite (js_mul (js_div a b) (Fin 100))"
  by (cases a; cases b) (simp_all add: js_mul_def js_div_def inf_s_def)

lemma not_finite_cases: "\<not> is_finite a \<Longrightarrow> a = PosInf \<or> a = NegInf \<or> a = NaN"
  by (cases a) simp_all

lemma falsy_values: "(\<not> truthy v) = (v = Fin 0 \<or> v = NegZero \<or> v = NaN)"
  by (cases v) (simp_all add: truthy_def)


section \<open>Income and expenses\<close>

lemma hotTubMaintenance_only_through_or_zero:
  "or_zero h = or_zero (hotTubMaintenance p) \<Longrightarrow>
     calculateMetrics (p\<lparr>hotTubMaintenance := h\<rparr>) = calculateMetrics p"
  by (simp add: calculateMetrics_def monthlyMortgage_of_def loanAmount_def downPayment_def
      monthlyRate_def numberOfPayments_def monthlyIncome_of_def monthlyExpenses_of_def
      managementFee_def monthlyTax_def monthlyInsurance_def cashFlow_of_def annualCashFlow_def
      closingCosts_def totalInvestment_of_def cashOnCashReturn_of_def annualNOI_def capRate_of_def)

text \<open>The income and the expenses of \<open>newProperty\<close> do not depend on the financing fields.\<close>

lemma newProperty_income: "monthlyIncome_of (newProperty\<lparr>price := a, downPaymentPercent := b,
    interestRate := c, loanTermYears := d\<rparr>) = Fin 3650"
  by (simp add: monthlyIncome_of_def newProperty_def js_eval)

lemma newProperty_expenses: "monthlyExpenses_of (newProperty\<lparr>price := a, downPaymentPercent := b,
    interestRate := c, loanTermYears := d\<rparr>) = Fin (12025 / 6)"
  by (simp add: monthlyExpenses_of_def managementFee_def monthlyTax_def monthlyInsurance_def
      monthlyIncome_of_def newProperty_def js_eval)

section \<open>Run-time evaluation\<close>

text \<open>
  On the object of a typed Property every operation of \<open>calculateMetrics_rt\<close> meets
  numbers, so none fails; a symbol or a BigInt in a field makes it throw.
\<close>

lemma Property_object_reads:
  "Property_object p ''price'' = JNumber (price p)"
  "Property_object p ''downPaymentPercent'' = JNumber (downPaymentPercent p)"
  "Property_object p ''interestRate'' = JNumber (interestRate p)"
  "Property_object p ''loanTermYears'' = JNumber (loanTermYears p)"
  "Property_object p ''nightlyRate'' = JNumber (nightlyRate p)"
  "Property_object p ''occupancyRate'' = JNumber (occupancyRate p)"
  "Property_object p ''propertyTax'' = JNumber (propertyTax p)"
  "Property_object p ''insurance'' = JNumber (insurance p)"
  "Property_object p ''managementFeePercent'' = JNumber (managementFeePercent p)"
  "Property_object p ''snowRemoval'' = JNumber (snowRemoval p)"
  "Property_object p ''hotTubMaintenance'' =
     (case hotTubMaintenance p of None \<Rightarrow> JUndefined | Some n \<Rightarrow> JNumber n)"
  "Property_object p ''utilities'' = JNumber (utilities p)"
  "Property_object p ''maintenance'' = JNumber (maintenance p)"
  "Property_object p ''hoa'' = JNumber (hoa p)"
  "Property_object p ''otherExpenses'' = JNumber (otherExpenses p)"
  by (simp_all add: Property_object_def object_of_def)

lemma rt_numbers:
  "rt_mul (JNumber a) (JNumber b) = Inr (JNumber (js_mul a b))"
  "rt_div (JNumber a) (JNumber b) = Inr (JNumber (js_div a b))"
  "rt_sub (JNumber a) (JNumber b) = Inr (JNumber (js_sub a b))"
  "rt_add (JNumber a) (JNumber b) = Inr (JNumber (js_add a b))"
  "rt_gt (JNumber a) (JNumber b) = Inr (js_gt a b)"
  "rt_pow (JNumber a) (JNumber b) = Inr (JNumber (Math_pow a b))"
  by (simp_all add: rt_mul_def rt_div_def rt_sub_def rt_add_def rt_gt_def rt_pow_def binary_op_def
      js_gt_def)

lemma rt_or_hotTub:
  "rt_or (case h of None \<Rightarrow> JUndefined | Some n \<Rightarrow> JNumber n) (JNumber (Fin 0)) = JNumber (or_zero h)"
  by (simp add: rt_or_def or_zero_def split: option.split)

lemma mortgage_rt_numbers:
  "mortgage_rt (Property_object p) = Inr (JNumber (downPayment p), JNumber (monthlyMortgage_of p))"
  unfolding mortgage_rt_def Property_object_reads
  by (simp add: rt_numbers monthlyMortgage_of_def loanAmount_def downPayment_def monthlyRate_def
      numberOfPayments_def)

lemma income_rt_numbers:
  "income_rt (Property_object p) = Inr (JNumber (monthlyIncome_of p))"
  unfolding income_rt_def Property_object_reads
  by (simp add: rt_numbers monthlyIncome_of_def)

lemma expenses_rt_numbers:
  "expenses_rt (Property_object p) (JNumber (monthlyIncome_of p)) = Inr (JNumber (monthlyExpenses_of p))"
  unfolding expenses_rt_def Property_object_reads rt_or_hotTub
  by (simp add: rt_numbers monthlyExpenses_of_def managementFee_def monthlyTax_def
      monthlyInsurance_def)

lemma profitability_rt_numbers:
  "profitability_rt (Property_object p) (JNumber (downPayment p)) (JNumber (monthlyMortgage_of p))
     (JNumber (monthlyIncome_of p)) (JNumber (monthlyExpenses_of p))
   = Inr (CalculationResult_object (calculateMetrics p))"
  unfolding profitability_rt_def Property_object_reads
  by (simp add: rt_numbers CalculationResult_object_def calculateMetrics_def cashFlow_of_def
      annualCashFlow_def closingCosts_def totalInvestment_of_def cashOnCashReturn_of_def
      annualNOI_def capRate_of_def)

lemma calculateMetrics_rt_total:
  "calculateMetrics_rt (Property_object p) = Inr (CalculationResult_object (calculateMetrics p))"
  by (simp add: calculateMetrics_rt_def mortgage_rt_numbers income_rt_numbers expenses_rt_numbers
      profitability_rt_numbers)

lemma calculateMetrics_rt_symbol:
  "calculateMetrics_rt ((Property_object p)(''price'' := JSymbol)) = Inl TypeError"
  by (simp add: calculateMetrics_rt_def mortgage_rt_def Property_object_reads rt_numbers rt_mul_def
      binary_op_def)

lemma calculateMetrics_rt_bigint:
  "calculateMetrics_rt ((Property_object p)(''downPaymentPercent'' := JBigInt 20)) = Inl TypeError"
  by (simp add: calculateMetrics_rt_def mortgage_rt_def rt_div_def binary_op_def)

section \<open>Properties of \<^verbatim>\<open>calculateMetrics\<close>\<close>

subsection \<open>Mortgage payment\<close>

text \<open>
  C1. For every Property whose monthly rate \<open>interestRate / 100 / 12\<close> is greater than 0,
  \<open>monthlyMortgage\<close> is the annuity formula
  \<open>loanAmount * r * (1 + r)^n / ((1 + r)^n - 1)\<close>, computed with the operators of
  JavaScript and \<^verbatim>\<open>Math.pow\<close>, where \<open>loanAmount = price - price * (downPaymentPercent / 100)\<close>,
  \<open>r = interestRate / 100 / 12\<close> and \<open>n = loanTermYears * 12\<close>.
\<close>

theorem monthlyMortgage_annuity:
  assumes "js_gt (js_div (js_div (interestRate p) (Fin 100)) (Fin 12)) (Fin 0)"
  shows "monthlyMortgage (calculateMetrics p) =
           js_div
             (js_mul (js_mul (loanAmount p) (monthlyRate p))
                (Math_pow (js_add (Fin 1) (monthlyRate p)) (numberOfPayments p)))
             (js_sub (Math_pow (js_add (Fin 1) (monthlyRate p)) (numberOfPayments p)) (Fin 1))
         \<and> loanAmount p = js_sub (price p) (js_mul (price p) (js_div (downPaymentPercent p) (Fin 100)))
         \<and> monthlyRate p = js_div (js_div (interestRate p) (Fin 100)) (Fin 12)
         \<and> numberOfPayments p = js_mul (loanTermYears p) (Fin 12)"
proof -
  have br: "js_gt (monthlyRate p) (Fin 0)"
    using assms by (simp add: monthlyRate_def)
  have a: "monthlyMortgage (calculateMetrics p) =
           js_div
             (js_mul (js_mul (loanAmount p) (monthlyRate p))
                (Math_pow (js_add (Fin 1) (monthlyRate p)) (numberOfPayments p)))
             (js_sub (Math_pow (js_add (Fin 1) (monthlyRate p)) (numberOfPayments p)) (Fin 1))"
    using br by (simp add: calculateMetrics_def monthlyMortgage_of_def)
  show ?thesis
    using a by (simp add: loanAmount_def downPayment_def monthlyRate_def numberOfPayments_def)
qed

theorem monthlyMortgage_annuity_witness:
  "js_gt (js_div (js_div (interestRate (newProperty\<lparr>interestRate := Fin 12, loanTermYears := Fin 1\<rparr>))
      (Fin 100)) (Fin 12)) (Fin 0)
   \<and> monthlyMortgage (calculateMetrics (newProperty\<lparr>interestRate := Fin 12, loanTermYears := Fin 1\<rparr>)) =
       js_div
         (js_mul (js_mul (Fin 360000) (js_div (js_div (Fin 12) (Fin 100)) (Fin 12)))
            (Math_pow (js_add (Fin 1) (js_div (js_div (Fin 12) (Fin 100)) (Fin 12))) (Fin 12)))
         (js_sub (Math_pow (js_add (Fin 1) (js_div (js_div (Fin 12) (Fin 100)) (Fin 12))) (Fin 12))
            (Fin 1))"
proof -
  let ?p = "newProperty\<lparr>interestRate := Fin 12, loanTermYears := Fin 1\<rparr>"
  have flds: "price ?p = Fin 450000" "downPaymentPercent ?p = Fin 20"
    "interestRate ?p = Fin 12" "loanTermYears ?p = Fin 1"
    by (simp_all add: newProperty_def)
  have h: "js_gt (js_div (js_div (interestRate ?p) (Fin 100)) (Fin 12)) (Fin 0)"
    unfolding flds by (simp add: js_eval)
  have L: "js_sub (Fin 450000) (js_mul (Fin 450000) (js_div (Fin 20) (Fin 100))) = Fin 360000"
    and n: "js_mul (Fin 1) (Fin 12) = Fin 12"
    by (simp_all add: js_eval)
  have "monthlyMortgage (calculateMetrics ?p) =
           js_div
             (js_mul (js_mul (loanAmount ?p) (monthlyRate ?p))
                (Math_pow (js_add (Fin 1) (monthlyRate ?p)) (numberOfPayments ?p)))
             (js_sub (Math_pow (js_add (Fin 1) (monthlyRate ?p)) (numberOfPayments ?p)) (Fin 1))
         \<and> loanAmount ?p = js_sub (price ?p) (js_mul (price ?p) (js_div (downPaymentPercent ?p) (Fin 100)))
         \<and> monthlyRate ?p = js_div (js_div (interestRate ?p) (Fin 100)) (Fin 12)
         \<and> numberOfPayments ?p = js_mul (loanTermYears ?p) (Fin 12)"
    using monthlyMortgage_annuity [OF h] .
  then have "monthlyMortgage (calculateMetrics ?p) =
       js_div
         (js_mul (js_mul (Fin 360000) (js_div (js_div (Fin 12) (Fin 100)) (Fin 12)))
            (Math_pow (js_add (Fin 1) (js_div (js_div (Fin 12) (Fin 100)) (Fin 12))) (Fin 12)))
         (js_sub (Math_pow (js_add (Fin 1) (js_div (js_div (Fin 12) (Fin 100)) (Fin 12))) (Fin 12))
            (Fin 1))"
    by (simp only: flds L n)
  with h show ?thesis by blast
qed



text \<open>
  C9. For every Property with \<open>interestRate < 0\<close> the test \<open>monthlyRate > 0\<close> fails and
  \<open>monthlyMortgage = loanAmount / (loanTermYears * 12)\<close>, the straight-line payment. It is
  not the annuity formula: for a loan of 360000 at \<open>-12\<close> percent over one year the
  payment is 30000, and the annuity expression has another value.
\<close>

theorem monthlyMortgage_negative_interest:
  "(js_lt (interestRate p) (Fin 0) \<longrightarrow>
      \<not> js_gt (monthlyRate p) (Fin 0) \<and>
      monthlyMortgage (calculateMetrics p) = js_div (loanAmount p) (js_mul (loanTermYears p) (Fin 12)))
   \<and> (interestRate p = Fin (- 12) \<and> loanTermYears p = Fin 1 \<and> price p = Fin 450000
        \<and> downPaymentPercent p = Fin 20 \<longrightarrow>
       monthlyMortgage (calculateMetrics p) = Fin 30000 \<and>
       js_div
         (js_mul (js_mul (loanAmount p) (monthlyRate p))
            (Math_pow (js_add (Fin 1) (monthlyRate p)) (numberOfPayments p)))
         (js_sub (Math_pow (js_add (Fin 1) (monthlyRate p)) (numberOfPayments p)) (Fin 1))
       \<noteq> Fin 30000)"
proof -
  have z: "\<not> js_gt (interestRate p) (Fin 0)" if "js_lt (interestRate p) (Fin 0)"
    using that by (cases "interestRate p") (simp_all add: js_gt_def js_lt_def)
  have a: "\<not> js_gt (monthlyRate p) (Fin 0) \<and>
      monthlyMortgage (calculateMetrics p) = js_div (loanAmount p) (js_mul (loanTermYears p) (Fin 12))"
    if "js_lt (interestRate p) (Fin 0)"
    using straight_line_branch [OF z [OF that]] rate_not_positive [OF z [OF that]] by simp
  have c: "monthlyMortgage (calculateMetrics p) = Fin 30000 \<and>
       js_div
         (js_mul (js_mul (loanAmount p) (monthlyRate p))
            (Math_pow (js_add (Fin 1) (monthlyRate p)) (numberOfPayments p)))
         (js_sub (Math_pow (js_add (Fin 1) (monthlyRate p)) (numberOfPayments p)) (Fin 1))
       \<noteq> Fin 30000"
    if h: "interestRate p = Fin (- 12)" "loanTermYears p = Fin 1" "price p = Fin 450000"
       "downPaymentPercent p = Fin 20"
  proof -
    have L: "loanAmount p = Fin 360000"
      by (simp add: loanAmount_def downPayment_def h js_eval)
    have r: "monthlyRate p = Fin (- 1 / 100)"
      by (simp add: monthlyRate_def h js_eval)
    have n: "numberOfPayments p = Fin 12"
      by (simp add: numberOfPayments_def h js_eval)
    have neg: "js_lt (interestRate p) (Fin 0)"
      by (simp add: h js_lt_def)
    have s: "monthlyMortgage (calculateMetrics p) = Fin 30000"
      using a [OF neg] by (simp add: L h js_eval)
    define x :: real where "x = (99 / 100) ^ 12"
    have x: "0 < x" "x < 1" "28 * x < 25"
      by (simp_all add: x_def power_divide)
    have pw: "Math_pow (js_add (Fin 1) (Fin (- 1 / 100))) (Fin 12) = Fin x"
      by (simp add: js_eval x_def)
    have ne: "- 3600 * x / (x - 1) \<noteq> 30000"
    proof
      assume "- 3600 * x / (x - 1) = 30000"
      then have "- 3600 * x = 30000 * (x - 1)"
        using x by (simp add: field_simps)
      then show False
        using x(3) by (simp add: algebra_simps)
    qed
    have ann: "js_div (js_mul (js_mul (Fin 360000) (Fin (- 1 / 100))) (Fin x)) (js_sub (Fin x) (Fin 1))
                 = Fin (- 3600 * x / (x - 1))"
      using x(1,2) by (simp add: js_eval)
    show ?thesis
      using s ne by (simp only: L r n pw ann number.inject simp_thms)
  qed
  from a c show ?thesis by blast
qed

theorem monthlyMortgage_negative_interest_witness:
  "js_lt (interestRate (newProperty\<lparr>interestRate := Fin (- 12), loanTermYears := Fin 1\<rparr>)) (Fin 0)
   \<and> \<not> js_gt (monthlyRate (newProperty\<lparr>interestRate := Fin (- 12), loanTermYears := Fin 1\<rparr>)) (Fin 0)
   \<and> monthlyMortgage (calculateMetrics
         (newProperty\<lparr>interestRate := Fin (- 12), loanTermYears := Fin 1\<rparr>)) = Fin 30000"
proof -
  let ?p = "newProperty\<lparr>interestRate := Fin (- 12), loanTermYears := Fin 1\<rparr>"
  have flds: "interestRate ?p = Fin (- 12)" "loanTermYears ?p = Fin 1" "price ?p = Fin 450000"
    "downPaymentPercent ?p = Fin 20"
    by (simp_all add: newProperty_def)
  have neg: "js_lt (interestRate ?p) (Fin 0)"
    unfolding flds by (simp add: js_lt_def)
  have br: "\<not> js_gt (monthlyRate ?p) (Fin 0)"
    using monthlyMortgage_negative_interest [of ?p] neg by blast
  have v: "monthlyMortgage (calculateMetrics ?p) = Fin 30000"
    using monthlyMortgage_negative_interest [of ?p] flds by blast
  from neg br v show ?thesis by blast
qed

text \<open>
  C8. The loan amount is not \<open>\<ge> 0\<close> for every Property with \<open>downPaymentPercent\<close> in
  \<open>[0, 100]\<close>: the engine checks no field, and with \<open>price = -450000\<close> and
  \<open>downPaymentPercent = 20\<close> the loan amount is \<open>-360000\<close>.
\<close>

theorem loanAmount_negative_price_counterexample:
  "js_ge (downPaymentPercent (newProperty\<lparr>price := Fin (- 450000)\<rparr>)) (Fin 0)
   \<and> js_le (downPaymentPercent (newProperty\<lparr>price := Fin (- 450000)\<rparr>)) (Fin 100)
   \<and> loanAmount (newProperty\<lparr>price := Fin (- 450000)\<rparr>) = Fin (- 360000)
   \<and> \<not> js_ge (loanAmount (newProperty\<lparr>price := Fin (- 450000)\<rparr>)) (Fin 0)"
  by (simp add: newProperty_def loanAmount_def downPayment_def js_eval js_ge_def js_le_def js_lt_def)

text \<open>
  C8, amended. For every Property with a finite price \<open>\<ge> 0\<close> and \<open>downPaymentPercent\<close> in
  \<open>[0, 100]\<close>, the loan amount \<open>price - price * (downPaymentPercent / 100)\<close> is finite and
  \<open>\<ge> 0\<close>.
\<close>

theorem loanAmount_nonnegative:
  assumes "is_finite (price p)" and "js_ge (price p) (Fin 0)"
    and "js_ge (downPaymentPercent p) (Fin 0)" and "js_le (downPaymentPercent p) (Fin 100)"
  shows "loanAmount p = js_sub (price p) (js_mul (price p) (js_div (downPaymentPercent p) (Fin 100)))
         \<and> is_finite (loanAmount p)
         \<and> js_ge (loanAmount p) (Fin 0)"
proof -
  have d: "is_finite (downPaymentPercent p)" "0 \<le> to_real (downPaymentPercent p)"
    "to_real (downPaymentPercent p) \<le> 100"
    using js_ge_le_finite [OF assms(3,4)] by simp_all
  have P: "0 \<le> to_real (price p)"
    using assms(1,2) by (simp add: js_ge_zero_finite)
  have e: "loanAmount p = js_sub (price p) (js_mul (price p) (js_div (downPaymentPercent p) (Fin 100)))"
    by (simp add: loanAmount_def downPayment_def)
  have L: "is_finite (loanAmount p)"
    "to_real (loanAmount p) = to_real (price p) - to_real (price p) * to_real (downPaymentPercent p) / 100"
    using assms(1) d(1) by (simp_all add: e js_sub_finite js_mul_finite js_div_finite)
  have v: "to_real (loanAmount p) = to_real (price p) * (1 - to_real (downPaymentPercent p) / 100)"
    unfolding L(2) by (simp add: algebra_simps)
  have "0 \<le> to_real (price p) * (1 - to_real (downPaymentPercent p) / 100)"
    using P d(3) by (intro mult_nonneg_nonneg) simp_all
  then have "js_ge (loanAmount p) (Fin 0)"
    using L(1) v by (simp add: js_ge_zero_finite)
  with e L(1) show ?thesis by blast
qed

theorem loanAmount_nonnegative_witness:
  "is_finite (price newProperty) \<and> js_ge (price newProperty) (Fin 0)
   \<and> js_ge (downPaymentPercent newProperty) (Fin 0) \<and> js_le (downPaymentPercent newProperty) (Fin 100)
   \<and> is_finite (loanAmount newProperty)
   \<and> js_ge (loanAmount newProperty) (Fin 0)"
proof -
  have flds: "price newProperty = Fin 450000" "downPaymentPercent newProperty = Fin 20"
    by (simp_all add: newProperty_def)
  have h: "is_finite (price newProperty)" "js_ge (price newProperty) (Fin 0)"
    "js_ge (downPaymentPercent newProperty) (Fin 0)" "js_le (downPaymentPercent newProperty) (Fin 100)"
    unfolding flds by (simp_all add: js_ge_def js_le_def js_lt_def)
  have "is_finite (loanAmount newProperty) \<and> js_ge (loanAmount newProperty) (Fin 0)"
    using loanAmount_nonnegative [OF h] by blast
  with h show ?thesis by blast
qed

subsection \<open>Income\<close>

text \<open>
  C3. For every Property, \<open>monthlyIncome = nightlyRate * 365 * (occupancyRate / 100) / 12\<close>;
  for \<open>nightlyRate = 200\<close> and \<open>occupancyRate = 60\<close> it is 3650.
\<close>

theorem monthlyIncome_formula:
  "monthlyIncome (calculateMetrics p) =
     js_div (js_mul (js_mul (nightlyRate p) (Fin 365)) (js_div (occupancyRate p) (Fin 100))) (Fin 12)
   \<and> (nightlyRate p = Fin 200 \<and> occupancyRate p = Fin 60 \<longrightarrow>
        monthlyIncome (calculateMetrics p) = Fin 3650)"
proof -
  have a: "monthlyIncome (calculateMetrics p) =
     js_div (js_mul (js_mul (nightlyRate p) (Fin 365)) (js_div (occupancyRate p) (Fin 100))) (Fin 12)"
    by (simp add: calculateMetrics_def monthlyIncome_of_def)
  have c: "monthlyIncome (calculateMetrics p) = Fin 3650"
    if "nightlyRate p = Fin 200" "occupancyRate p = Fin 60"
    unfolding a using that by (simp add: js_eval)
  from a c show ?thesis by blast
qed

theorem monthlyIncome_formula_witness:
  "nightlyRate newProperty = Fin 200 \<and> occupancyRate newProperty = Fin 60
   \<and> monthlyIncome (calculateMetrics newProperty) = Fin 3650"
proof -
  have h: "nightlyRate newProperty = Fin 200 \<and> occupancyRate newProperty = Fin 60"
    by (simp add: newProperty_def)
  have v: "monthlyIncome (calculateMetrics newProperty) = Fin 3650"
    using monthlyIncome_formula [of newProperty] h by blast
  show ?thesis
    using h v by simp
qed

subsection \<open>Expenses\<close>

text \<open>
  C4. For every Property, \<open>monthlyExpenses\<close> is
  \<open>monthlyIncome * (managementFeePercent / 100) + propertyTax / 12 + insurance / 12 + snowRemoval
  + (hotTubMaintenance || 0) + utilities + maintenance + hoa + otherExpenses\<close>, added from left
  to right, where a missing, zero or NaN \<open>hotTubMaintenance\<close> counts as 0; only
  \<open>propertyTax\<close> and \<open>insurance\<close> are divided by 12. The mortgage payment is no part of it:
  \<open>monthlyExpenses\<close> is the same whatever \<open>price\<close>, \<open>downPaymentPercent\<close>, \<open>interestRate\<close> and
  \<open>loanTermYears\<close> are.
\<close>

theorem monthlyExpenses_formula:
  "monthlyExpenses (calculateMetrics p) =
     js_add (js_add (js_add (js_add (js_add (js_add (js_add (js_add
       (js_mul (monthlyIncome (calculateMetrics p)) (js_div (managementFeePercent p) (Fin 100)))
       (js_div (propertyTax p) (Fin 12)))
       (js_div (insurance p) (Fin 12)))
       (snowRemoval p))
       (or_zero (hotTubMaintenance p)))
       (utilities p))
       (maintenance p))
       (hoa p))
       (otherExpenses p)
   \<and> or_zero (hotTubMaintenance p) =
       (case hotTubMaintenance p of None \<Rightarrow> Fin 0
        | Some v \<Rightarrow> if is_nan v \<or> is_zero v then Fin 0 else v)
   \<and> monthlyExpenses (calculateMetrics
         (p\<lparr>price := a, downPaymentPercent := b, interestRate := c, loanTermYears := d\<rparr>))
       = monthlyExpenses (calculateMetrics p)"
proof -
  have e1: "monthlyExpenses (calculateMetrics p) = monthlyExpenses_of p"
    and e2: "monthlyIncome (calculateMetrics p) = monthlyIncome_of p"
    by (simp_all add: calculateMetrics_def)
  have a: "monthlyExpenses_of p =
     js_add (js_add (js_add (js_add (js_add (js_add (js_add (js_add
       (js_mul (monthlyIncome_of p) (js_div (managementFeePercent p) (Fin 100)))
       (js_div (propertyTax p) (Fin 12)))
       (js_div (insurance p) (Fin 12)))
       (snowRemoval p))
       (or_zero (hotTubMaintenance p)))
       (utilities p))
       (maintenance p))
       (hoa p))
       (otherExpenses p)"
    by (simp add: monthlyExpenses_of_def managementFee_def monthlyTax_def monthlyInsurance_def)
  have c: "or_zero (hotTubMaintenance p) =
       (case hotTubMaintenance p of None \<Rightarrow> Fin 0
        | Some v \<Rightarrow> if is_nan v \<or> is_zero v then Fin 0 else v)"
    by (simp add: or_zero_def truthy_def split: option.split)
  have d: "monthlyExpenses_of
         (p\<lparr>price := a, downPaymentPercent := b, interestRate := c, loanTermYears := d\<rparr>)
       = monthlyExpenses_of p"
    by (simp add: monthlyExpenses_of_def managementFee_def monthlyTax_def monthlyInsurance_def
        monthlyIncome_of_def)
  show ?thesis
    unfolding e1 e2 using a c d by (simp add: calculateMetrics_def)
qed

text \<open>
  C10. For every Property whose \<open>hotTubMaintenance\<close> is falsy (missing, \<open>0\<close>, \<open>-0\<close> or NaN),
  \<open>calculateMetrics\<close> returns the result it returns with \<open>hotTubMaintenance = 0\<close>; so a NaN
  there does not make \<open>monthlyExpenses\<close> NaN, whereas a NaN in any other expense field
  does.
\<close>

theorem hotTubMaintenance_falsy:
  "(hotTubMaintenance p \<in> {None, Some (Fin 0), Some NegZero, Some NaN} \<longrightarrow>
      calculateMetrics p = calculateMetrics (p\<lparr>hotTubMaintenance := Some (Fin 0)\<rparr>))
   \<and> (hotTubMaintenance p = Some NaN \<and> is_finite (monthlyExpenses (calculateMetrics
          (p\<lparr>hotTubMaintenance := Some (Fin 0)\<rparr>))) \<longrightarrow>
        monthlyExpenses (calculateMetrics p) \<noteq> NaN)
   \<and> (is_nan (propertyTax p) \<or> is_nan (insurance p) \<or> is_nan (managementFeePercent p)
        \<or> is_nan (snowRemoval p) \<or> is_nan (utilities p) \<or> is_nan (maintenance p)
        \<or> is_nan (hoa p) \<or> is_nan (otherExpenses p) \<longrightarrow>
      monthlyExpenses (calculateMetrics p) = NaN)"
proof -
  have a: "calculateMetrics p = calculateMetrics (p\<lparr>hotTubMaintenance := Some (Fin 0)\<rparr>)"
    if "hotTubMaintenance p \<in> {None, Some (Fin 0), Some NegZero, Some NaN}"
  proof -
    have "or_zero (Some (Fin 0)) = or_zero (hotTubMaintenance p)"
      using that by (auto simp: or_zero_def truthy_def)
    from hotTubMaintenance_only_through_or_zero [OF this] show ?thesis
      by simp
  qed
  have b: "monthlyExpenses (calculateMetrics p) \<noteq> NaN"
    if "hotTubMaintenance p = Some NaN"
      "is_finite (monthlyExpenses (calculateMetrics (p\<lparr>hotTubMaintenance := Some (Fin 0)\<rparr>)))"
  proof -
    have "calculateMetrics p = calculateMetrics (p\<lparr>hotTubMaintenance := Some (Fin 0)\<rparr>)"
      using a that(1) by simp
    then show ?thesis
      using that(2) by auto
  qed
  have nan: "x = NaN" if "is_nan x" for x
    using that by (cases x) simp_all
  have c: "monthlyExpenses (calculateMetrics p) = NaN"
    if "is_nan (propertyTax p) \<or> is_nan (insurance p) \<or> is_nan (managementFeePercent p)
        \<or> is_nan (snowRemoval p) \<or> is_nan (utilities p) \<or> is_nan (maintenance p)
        \<or> is_nan (hoa p) \<or> is_nan (otherExpenses p)"
    using that
    by (auto simp: calculateMetrics_def monthlyExpenses_of_def managementFee_def monthlyTax_def
        monthlyInsurance_def dest!: nan)
  from a b c show ?thesis by blast
qed

theorem hotTubMaintenance_falsy_witness:
  "hotTubMaintenance (newProperty\<lparr>hotTubMaintenance := Some NaN\<rparr>)
     \<in> {None, Some (Fin 0), Some NegZero, Some NaN}
   \<and> calculateMetrics (newProperty\<lparr>hotTubMaintenance := Some NaN\<rparr>) = calculateMetrics newProperty
   \<and> hotTubMaintenance (newProperty\<lparr>hotTubMaintenance := None\<rparr>)
     \<in> {None, Some (Fin 0), Some NegZero, Some NaN}
   \<and> calculateMetrics (newProperty\<lparr>hotTubMaintenance := None\<rparr>) = calculateMetrics newProperty
   \<and> monthlyExpenses (calculateMetrics (newProperty\<lparr>hotTubMaintenance := Some NaN\<rparr>))
       = Fin (12025 / 6)
   \<and> is_nan (snowRemoval (newProperty\<lparr>snowRemoval := NaN\<rparr>))
   \<and> monthlyExpenses (calculateMetrics (newProperty\<lparr>snowRemoval := NaN\<rparr>)) = NaN"
proof -
  let ?p = "newProperty\<lparr>hotTubMaintenance := Some NaN\<rparr>"
  let ?q = "newProperty\<lparr>hotTubMaintenance := None\<rparr>"
  let ?s = "newProperty\<lparr>snowRemoval := NaN\<rparr>"
  have z: "?p\<lparr>hotTubMaintenance := Some (Fin 0)\<rparr> = newProperty"
    "?q\<lparr>hotTubMaintenance := Some (Fin 0)\<rparr> = newProperty"
    by (simp_all add: newProperty_def)
  have hp: "hotTubMaintenance ?p \<in> {None, Some (Fin 0), Some NegZero, Some NaN}"
    and hq: "hotTubMaintenance ?q \<in> {None, Some (Fin 0), Some NegZero, Some NaN}"
    by simp_all
  have ep: "calculateMetrics ?p = calculateMetrics newProperty"
    using hotTubMaintenance_falsy [of ?p] hp unfolding z by blast
  have eq: "calculateMetrics ?q = calculateMetrics newProperty"
    using hotTubMaintenance_falsy [of ?q] hq unfolding z by blast
  have e: "monthlyExpenses (calculateMetrics newProperty) = Fin (12025 / 6)"
    using newProperty_expenses [where a = "Fin 450000" and b = "Fin 20" and c = "Fin (68 / 10)"
        and d = "Fin 30"]
    by (simp add: calculateMetrics_def newProperty_def)
  have n: "is_nan (snowRemoval ?s)"
    by simp
  have s: "monthlyExpenses (calculateMetrics ?s) = NaN"
    using hotTubMaintenance_falsy [of ?s] n by blast
  from hp ep hq eq e n s show ?thesis
    by simp
qed

subsection \<open>Profitability\<close>




text \<open>
  C6. For every Property, \<open>totalInvestment = downPayment + price * 0.03\<close>;
  \<open>cashOnCashReturn = (cashFlow * 12 / totalInvestment) * 100\<close> when \<open>totalInvestment > 0\<close>,
  and exactly 0 otherwise, in particular when \<open>totalInvestment\<close> is zero or negative; with
  \<open>price = 0\<close> and \<open>downPaymentPercent = 0\<close> the investment is zero and the return is 0.
\<close>

theorem cashOnCashReturn_guard:
  "totalInvestment (calculateMetrics p) = js_add (downPayment p) (js_mul (price p) (Fin (3 / 100)))
   \<and> downPayment p = js_mul (price p) (js_div (downPaymentPercent p) (Fin 100))
   \<and> (js_gt (totalInvestment (calculateMetrics p)) (Fin 0) \<longrightarrow>
        cashOnCashReturn (calculateMetrics p) =
          js_mul (js_div (js_mul (cashFlow (calculateMetrics p)) (Fin 12))
                    (totalInvestment (calculateMetrics p))) (Fin 100))
   \<and> (\<not> js_gt (totalInvestment (calculateMetrics p)) (Fin 0) \<longrightarrow>
        cashOnCashReturn (calculateMetrics p) = Fin 0)
   \<and> (is_zero (totalInvestment (calculateMetrics p))
        \<or> js_lt (totalInvestment (calculateMetrics p)) (Fin 0) \<longrightarrow>
        cashOnCashReturn (calculateMetrics p) = Fin 0)
   \<and> (is_zero (price p) \<and> is_zero (downPaymentPercent p) \<longrightarrow>
        is_zero (totalInvestment (calculateMetrics p)) \<and>
        cashOnCashReturn (calculateMetrics p) = Fin 0)"
proof -
  have sel: "totalInvestment (calculateMetrics p) = totalInvestment_of p"
    "cashOnCashReturn (calculateMetrics p) = cashOnCashReturn_of p"
    "cashFlow (calculateMetrics p) = cashFlow_of p"
    by (simp_all add: calculateMetrics_def)
  have t: "totalInvestment_of p = js_add (downPayment p) (js_mul (price p) (Fin (3 / 100)))"
    by (simp add: totalInvestment_of_def closingCosts_def)
  have d: "downPayment p = js_mul (price p) (js_div (downPaymentPercent p) (Fin 100))"
    by (simp add: downPayment_def)
  have pos: "cashOnCashReturn_of p =
          js_mul (js_div (js_mul (cashFlow_of p) (Fin 12)) (totalInvestment_of p)) (Fin 100)"
    if "js_gt (totalInvestment_of p) (Fin 0)"
    using that by (simp add: cashOnCashReturn_of_def annualCashFlow_def)
  have npos: "cashOnCashReturn_of p = Fin 0" if "\<not> js_gt (totalInvestment_of p) (Fin 0)"
    using that by (simp add: cashOnCashReturn_of_def)
  have zneg: "cashOnCashReturn_of p = Fin 0"
    if "is_zero (totalInvestment_of p) \<or> js_lt (totalInvestment_of p) (Fin 0)"
    using npos [OF not_positive [OF that]] .
  have zz: "is_zero (totalInvestment_of p) \<and> cashOnCashReturn_of p = Fin 0"
    if "is_zero (price p)" "is_zero (downPaymentPercent p)"
  proof -
    have "is_zero (totalInvestment_of p)"
      unfolding t d using zero_price_investment [OF that] .
    then show ?thesis
      using zneg by blast
  qed
  show ?thesis
    unfolding sel using t d pos npos zneg zz by blast
qed

theorem cashOnCashReturn_guard_witness:
  "js_gt (totalInvestment (calculateMetrics newProperty)) (Fin 0)
   \<and> cashOnCashReturn (calculateMetrics newProperty) =
       js_mul (js_div (js_mul (cashFlow (calculateMetrics newProperty)) (Fin 12))
                 (totalInvestment (calculateMetrics newProperty))) (Fin 100)
   \<and> js_lt (totalInvestment (calculateMetrics (newProperty\<lparr>price := Fin (- 450000)\<rparr>))) (Fin 0)
   \<and> cashOnCashReturn (calculateMetrics (newProperty\<lparr>price := Fin (- 450000)\<rparr>)) = Fin 0
   \<and> is_zero (price (newProperty\<lparr>price := Fin 0, downPaymentPercent := Fin 0\<rparr>))
   \<and> is_zero (downPaymentPercent (newProperty\<lparr>price := Fin 0, downPaymentPercent := Fin 0\<rparr>))
   \<and> is_zero (totalInvestment (calculateMetrics (newProperty\<lparr>price := Fin 0, downPaymentPercent := Fin 0\<rparr>)))
   \<and> cashOnCashReturn (calculateMetrics (newProperty\<lparr>price := Fin 0, downPaymentPercent := Fin 0\<rparr>))
       = Fin 0"
proof -
  let ?n = "newProperty\<lparr>price := Fin (- 450000)\<rparr>"
  let ?q = "newProperty\<lparr>price := Fin 0, downPaymentPercent := Fin 0\<rparr>"
  have g: "js_gt (totalInvestment (calculateMetrics newProperty)) (Fin 0)"
    by (simp add: calculateMetrics_def totalInvestment_of_def closingCosts_def downPayment_def
        newProperty_def js_eval)
  have v: "cashOnCashReturn (calculateMetrics newProperty) =
       js_mul (js_div (js_mul (cashFlow (calculateMetrics newProperty)) (Fin 12))
                 (totalInvestment (calculateMetrics newProperty))) (Fin 100)"
    using cashOnCashReturn_guard [of newProperty] g by blast
  have l: "js_lt (totalInvestment (calculateMetrics ?n)) (Fin 0)"
    by (simp add: calculateMetrics_def totalInvestment_of_def closingCosts_def downPayment_def
        newProperty_def js_eval js_lt_def)
  have n: "cashOnCashReturn (calculateMetrics ?n) = Fin 0"
    using cashOnCashReturn_guard [of ?n] l by blast
  have z: "is_zero (price ?q) \<and> is_zero (downPaymentPercent ?q)"
    by simp
  have w: "is_zero (totalInvestment (calculateMetrics ?q)) \<and> cashOnCashReturn (calculateMetrics ?q) = Fin 0"
    using cashOnCashReturn_guard [of ?q] z by blast
  from g v l n z w show ?thesis by blast
qed

text \<open>
  C7. \<open>calculateMetrics\<close> never raises an error: evaluated over run-time values on the
  object of any Property whose numeric fields hold numbers (\<open>hotTubMaintenance\<close> may be
  missing), no operation throws and the result is the object of \<open>calculateMetrics p\<close>.
  \<open>capRate = ((monthlyIncome - monthlyExpenses) * 12 / price) * 100\<close> with no guard: for
  \<open>price = 0\<close> it is \<open>Infinity\<close>, \<open>-Infinity\<close> or NaN, whatever the other fields are.
\<close>

theorem capRate_unguarded:
  "calculateMetrics_rt (Property_object p) = Inr (CalculationResult_object (calculateMetrics p))
   \<and> capRate (calculateMetrics p) =
     js_mul
       (js_div
          (js_mul (js_sub (monthlyIncome (calculateMetrics p)) (monthlyExpenses (calculateMetrics p)))
             (Fin 12))
          (price p))
       (Fin 100)
   \<and> (is_zero (price p) \<longrightarrow>
        \<not> is_finite (capRate (calculateMetrics p)) \<and>
        (capRate (calculateMetrics p) = PosInf \<or> capRate (calculateMetrics p) = NegInf
         \<or> capRate (calculateMetrics p) = NaN))"
proof -
  have sel: "capRate (calculateMetrics p) = capRate_of p"
    "monthlyExpenses (calculateMetrics p) = monthlyExpenses_of p"
    "monthlyIncome (calculateMetrics p) = monthlyIncome_of p"
    by (simp_all add: calculateMetrics_def)
  have a: "capRate_of p =
     js_mul (js_div (js_mul (js_sub (monthlyIncome_of p) (monthlyExpenses_of p)) (Fin 12)) (price p))
       (Fin 100)"
    by (simp add: capRate_of_def annualNOI_def)
  have b: "\<not> is_finite (capRate_of p) \<and>
        (capRate_of p = PosInf \<or> capRate_of p = NegInf \<or> capRate_of p = NaN)"
    if "is_zero (price p)"
  proof -
    have "\<not> is_finite (capRate_of p)"
      unfolding a using zero_divisor_not_finite [OF that] .
    then show ?thesis
      using not_finite_cases by blast
  qed
  have t: "calculateMetrics_rt (Property_object p) = Inr (CalculationResult_object (calculateMetrics p))"
    by (rule calculateMetrics_rt_total)
  show ?thesis
    using t a b unfolding sel by blast
qed

theorem capRate_unguarded_witness:
  "is_zero (price (newProperty\<lparr>price := Fin 0\<rparr>))
   \<and> \<not> is_finite (capRate (calculateMetrics (newProperty\<lparr>price := Fin 0\<rparr>)))
   \<and> capRate (calculateMetrics (newProperty\<lparr>price := Fin 0\<rparr>)) = PosInf
   \<and> calculateMetrics_rt (Property_object (newProperty\<lparr>price := Fin 0\<rparr>)) =
       Inr (CalculationResult_object (calculateMetrics (newProperty\<lparr>price := Fin 0\<rparr>)))"
proof -
  let ?p = "newProperty\<lparr>price := Fin 0\<rparr>"
  have i: "monthlyIncome (calculateMetrics ?p) = Fin 3650"
    and e: "monthlyExpenses (calculateMetrics ?p) = Fin (12025 / 6)"
    using newProperty_income [where a = "Fin 0" and b = "Fin 20" and c = "Fin (68 / 10)" and d = "Fin 30"]
      newProperty_expenses [where a = "Fin 0" and b = "Fin 20" and c = "Fin (68 / 10)" and d = "Fin 30"]
    by (simp_all add: calculateMetrics_def newProperty_def)
  have z: "is_zero (price ?p)"
    by simp
  have nf: "\<not> is_finite (capRate (calculateMetrics ?p))"
    using capRate_unguarded [of ?p] z by blast
  have "capRate (calculateMetrics ?p) =
     js_mul (js_div (js_mul (js_sub (monthlyIncome (calculateMetrics ?p))
       (monthlyExpenses (calculateMetrics ?p))) (Fin 12)) (price ?p)) (Fin 100)"
    using capRate_unguarded [of ?p] by blast
  then have v: "capRate (calculateMetrics ?p) = PosInf"
    unfolding i e by (simp add: js_eval js_mul_def)
  have t: "calculateMetrics_rt (Property_object ?p) = Inr (CalculationResult_object (calculateMetrics ?p))"
    using capRate_unguarded [of ?p] by blast
  from z nf v t show ?thesis by blast
qed

end
